theory Spec2Isabelle
  imports Main "HOL-Library.Sublist" "HOL-Library.Char_ord" "HOL-Library.List_Lexorder"
begin

section \<open>The AUTO device plugin\<close>

text \<open>
  A shallow embedding of \<^verbatim>\<open>inference-engine/src/auto_plugin/auto_plugin.cpp\<close>.
  Exceptions are values: every function that can throw returns \<open>ie_error + 'a\<close>, with
  \<open>Inl\<close> the exception. The Inference Engine core the plugin talks to
  (\<^verbatim>\<open>GetCore()\<close>) is a record of the services the plugin calls; each service that the
  plugin calls per device may throw.
\<close>

subsection \<open>Strings\<close>

text \<open>
  \<^verbatim>\<open>std::string::find(pat)\<close>: the position of the first occurrence of \<open>pat\<close>, or
  \<^verbatim>\<open>npos\<close>, which is \<open>None\<close> here.
\<close>

fun str_find :: "string \<Rightarrow> string \<Rightarrow> nat option" where
  "str_find [] pat = (if pat = [] then Some 0 else None)"
| "str_find (c # cs) pat =
     (if prefix pat (c # cs) then Some 0 else map_option Suc (str_find cs pat))"

subsection \<open>Errors, configuration maps, the core\<close>

text \<open>
  \<^verbatim>\<open>IE_THROW(NotFound) << msg\<close> is \<open>NotFound msg\<close>; \<^verbatim>\<open>IE_THROW() << msg\<close> is
  \<open>GeneralError msg\<close>. An exception thrown by the core is a value of the same type.
\<close>

datatype ie_error = NotFound string | GeneralError string

text \<open>
  \<^verbatim>\<open>ConfigType\<close> is \<^verbatim>\<open>std::map<std::string, std::string>\<close>: the entries in increasing
  key order, every key once. Iteration is over the list; \<^verbatim>\<open>find\<close> is \<open>map_of\<close>.
\<close>

type_synonym ConfigType = "(string \<times> string) list"

type_synonym DeviceName = string

definition wf_config :: "ConfigType \<Rightarrow> bool" where
  "wf_config c = sorted_wrt (<) (map fst c)"

text \<open>\<^verbatim>\<open>config[k] = v\<close> on a \<^verbatim>\<open>std::map\<close>: assign in place, or insert at the key's place.\<close>

fun assign :: "string \<Rightarrow> string \<Rightarrow> ConfigType \<Rightarrow> ConfigType" where
  "assign k v [] = [(k, v)]"
| "assign k v ((k', v') # m) =
     (if k = k' then (k, v) # m
      else if k < k' then (k, v) # (k', v') # m
      else (k', v') # assign k v m)"

text \<open>
  Modelled from the spec: the configuration keys and values of
  \<^verbatim>\<open>ie_plugin_config.hpp\<close> and \<^verbatim>\<open>auto_config.hpp\<close>, which are not among the sources: the
  boolean toggle key \<^verbatim>\<open>PERF_COUNT\<close> with the values \<^verbatim>\<open>YES\<close> and \<^verbatim>\<open>NO\<close>, and the
  device-list key in the reserved \<^verbatim>\<open>AUTO_\<close> namespace.
\<close>

definition KEY_PERF_COUNT :: string where
  "KEY_PERF_COUNT = ''PERF_COUNT''"

definition YES :: string where
  "YES = ''YES''"

definition NO :: string where
  "NO = ''NO''"

definition KEY_AUTO_DEVICE_LIST :: string where
  "KEY_AUTO_DEVICE_LIST = ''AUTO_DEVICE_LIST''"

text \<open>
  The model graph as far as \<^verbatim>\<open>GetNetworkPrecision\<close> reads it: the operators in
  \<^verbatim>\<open>get_ordered_ops()\<close> order, each with its type and, for the convolution family
  (whose constructors all take data and filters), the name of the element type of
  \<^verbatim>\<open>input(1)\<close>. A \<^verbatim>\<open>CNNNetwork\<close> whose \<^verbatim>\<open>getFunction()\<close> is null is \<open>None\<close>.
\<close>

datatype op_type =
    FakeQuantize
  | Convolution
  | GroupConvolution
  | GroupConvolutionBackpropData
  | ConvolutionBackpropData
  | ConvolutionIE
  | DeconvolutionIE
  | OtherOp

record node =
  type_info :: op_type
  input1_type_name :: string

type_synonym CNNNetwork = "node list option"

text \<open>
  The services of \<^verbatim>\<open>ICore\<close> that the plugin calls. \<open>getHeteroDevices\<close> is
  \<^verbatim>\<open>DeviceIDParser::getHeteroDevices\<close>, whose code is not among the sources: it is a
  parameter here.
\<close>

record core =
  GetAvailableDevices :: "DeviceName list"
  getHeteroDevices :: "string \<Rightarrow> DeviceName list"
  GetMetric_FULL_DEVICE_NAME :: "DeviceName \<Rightarrow> ie_error + string"
  GetMetric_OPTIMIZATION_CAPABILITIES :: "DeviceName \<Rightarrow> ie_error + string list"
  core_QueryNetwork :: "CNNNetwork \<Rightarrow> DeviceName \<Rightarrow> ie_error + (string \<times> string) list"

record plugin =
  pluginName :: string
  plugin_config :: ConfigType
  plugin_core :: "core option"

text \<open>The constructor: \<^verbatim>\<open>_pluginName = "AUTO"\<close>, no configuration, no core yet.\<close>

definition AutoInferencePlugin :: plugin where
  "AutoInferencePlugin = \<lparr>pluginName = ''AUTO'', plugin_config = [], plugin_core = None\<rparr>"

definition GetName :: "plugin \<Rightarrow> string" where
  "GetName p = pluginName p"

subsection \<open>GetNetworkPrecision\<close>

text \<open>
  Modelled from the spec: \<^verbatim>\<open>ngraph::op::util::has_op_with_type\<close>
  (transformations/utils/utils.hpp, not among the sources): whether the graph contains
  an operator of the given type.
\<close>

definition has_op_with_type :: "op_type \<Rightarrow> node list \<Rightarrow> bool" where
  "has_op_with_type t nGraphFunc = (t \<in> set (map type_info nGraphFunc))"

text \<open>The six \<^verbatim>\<open>dynamic_pointer_cast\<close>s of the loop.\<close>

definition is_convolution_family :: "node \<Rightarrow> bool" where
  "is_convolution_family n =
     (type_info n = Convolution \<or> type_info n = GroupConvolution \<or>
      type_info n = GroupConvolutionBackpropData \<or> type_info n = ConvolutionBackpropData \<or>
      type_info n = ConvolutionIE \<or> type_info n = DeconvolutionIE)"

fun GetNetworkPrecision_loop :: "node list \<Rightarrow> string" where
  "GetNetworkPrecision_loop [] = ''FP32''"
| "GetNetworkPrecision_loop (n # ns) =
     (if is_convolution_family n then
        (let layerType = input1_type_name n in
         if layerType = ''f32'' then ''FP32''
         else if layerType = ''f16'' then ''FP16''
         else GetNetworkPrecision_loop ns)
      else GetNetworkPrecision_loop ns)"

definition GetNetworkPrecision :: "node list \<Rightarrow> string" where
  "GetNetworkPrecision nGraphFunc =
     (let isINTModel = has_op_with_type FakeQuantize nGraphFunc in
      if isINTModel then ''INT8'' else GetNetworkPrecision_loop nGraphFunc)"

subsection \<open>mergeConfigs, CheckConfig, GetDeviceList\<close>

fun mergeConfigs :: "ConfigType \<Rightarrow> ConfigType \<Rightarrow> ConfigType" where
  "mergeConfigs config [] = config"
| "mergeConfigs config ((k, v) # local) = mergeConfigs (assign k v config) local"

text \<open>
  The plugin's own \<^verbatim>\<open>GetMetric(SUPPORTED_CONFIG_KEYS)\<close>, which \<^verbatim>\<open>CheckConfig\<close> calls first
  and whose result it does not use.
\<close>

definition GetMetric_SUPPORTED_CONFIG_KEYS :: "string list" where
  "GetMetric_SUPPORTED_CONFIG_KEYS = [KEY_AUTO_DEVICE_LIST, KEY_PERF_COUNT]"

fun CheckConfig_loop :: "ConfigType \<Rightarrow> ie_error + unit" where
  "CheckConfig_loop [] = Inr ()"
| "CheckConfig_loop ((k, v) # config) =
     (if str_find k ''AUTO_'' = Some 0 then CheckConfig_loop config
      else if k = KEY_PERF_COUNT then
        (if v = YES \<or> v = NO then CheckConfig_loop config
         else Inl (GeneralError (''Unsupported config value: '' @ v @ '' for key: '' @ k)))
      else Inl (GeneralError (''Unsupported config key: '' @ k)))"

text \<open>
  \<^verbatim>\<open>CheckConfig\<close> is a non-const member function: it gets the plugin and returns it
  with the result.
\<close>

definition CheckConfig :: "plugin \<Rightarrow> ConfigType \<Rightarrow> (ie_error + unit) \<times> plugin" where
  "CheckConfig p config =
     (let supportedConfigKeys = GetMetric_SUPPORTED_CONFIG_KEYS in
      (CheckConfig_loop config, p))"

definition GetDeviceList :: "core \<Rightarrow> ConfigType \<Rightarrow> ie_error + DeviceName list" where
  "GetDeviceList c config =
     (let deviceList =
        (case map_of config KEY_AUTO_DEVICE_LIST of
           None \<Rightarrow> GetAvailableDevices c
         | Some deviceListConfig \<Rightarrow> getHeteroDevices c deviceListConfig)
      in if deviceList = []
         then Inl (GeneralError ''Please, check environment due to no supported devices can be used'')
         else Inr deviceList)"

subsection \<open>SelectDevice\<close>

record tiers =
  CPU :: "DeviceName list"
  dGPU :: "DeviceName list"
  iGPU :: "DeviceName list"
  MYRIAD :: "DeviceName list"
  VPUX :: "DeviceName list"

text \<open>The classification loop over \<^verbatim>\<open>metaDevices\<close>; the five vectors are the state.\<close>

fun classify_devices :: "core \<Rightarrow> DeviceName list \<Rightarrow> tiers \<Rightarrow> ie_error + tiers" where
  "classify_devices c [] t = Inr t"
| "classify_devices c (item # rest) t =
     (if str_find item ''CPU'' = Some 0
        then classify_devices c rest (t\<lparr>CPU := CPU t @ [item]\<rparr>)
      else if str_find item ''MYRIAD'' = Some 0
        then classify_devices c rest (t\<lparr>MYRIAD := MYRIAD t @ [item]\<rparr>)
      else if str_find item ''VPUX'' = Some 0
        then classify_devices c rest (t\<lparr>VPUX := VPUX t @ [item]\<rparr>)
      else if str_find item ''GPU'' = Some 0 then
        (case GetMetric_FULL_DEVICE_NAME c item of
           Inl e \<Rightarrow> Inl e
         | Inr gpuFullDeviceName \<Rightarrow>
             if str_find gpuFullDeviceName ''iGPU'' \<noteq> None
               then classify_devices c rest (t\<lparr>iGPU := iGPU t @ [item]\<rparr>)
             else if str_find gpuFullDeviceName ''dGPU'' \<noteq> None
               then classify_devices c rest (t\<lparr>dGPU := dGPU t @ [item]\<rparr>)
             else classify_devices c rest t)
      else classify_devices c rest t)"

text \<open>
  One \<^verbatim>\<open>for (auto&& item : tier)\<close> loop: the first member whose optimization
  capabilities contain the precision, \<open>None\<close> when the loop ends without a return.
\<close>

fun first_supporting :: "core \<Rightarrow> string \<Rightarrow> DeviceName list \<Rightarrow> ie_error + DeviceName option" where
  "first_supporting c precision [] = Inr None"
| "first_supporting c precision (item # rest) =
     (case GetMetric_OPTIMIZATION_CAPABILITIES c item of
        Inl e \<Rightarrow> Inl e
      | Inr capability \<Rightarrow>
          if precision \<in> set capability then Inr (Some item)
          else first_supporting c precision rest)"

text \<open>
  The \<^verbatim>\<open>if (!dGPU.empty()) ... else if (!VPUX.empty()) ... else if (!iGPU.empty()) ...
  else if (!MYRIAD.empty()) ...\<close> chain, which the source writes out twice, for the
  requested precision and for \<^verbatim>\<open>"FP16"\<close>.
\<close>

definition walk_tiers :: "core \<Rightarrow> string \<Rightarrow> tiers \<Rightarrow> ie_error + DeviceName option" where
  "walk_tiers c precision t =
     (if dGPU t \<noteq> [] then first_supporting c precision (dGPU t)
      else if VPUX t \<noteq> [] then first_supporting c precision (VPUX t)
      else if iGPU t \<noteq> [] then first_supporting c precision (iGPU t)
      else if MYRIAD t \<noteq> [] then first_supporting c precision (MYRIAD t)
      else Inr None)"

definition no_tiers :: tiers where
  "no_tiers = \<lparr>CPU = [], dGPU = [], iGPU = [], MYRIAD = [], VPUX = []\<rparr>"

definition SelectDevice :: "core \<Rightarrow> DeviceName list \<Rightarrow> string \<Rightarrow> ie_error + DeviceName" where
  "SelectDevice c metaDevices networkPrecision =
     (if metaDevices = [] then Inl (NotFound ''No available device to select in AUTO plugin'')
      else if length metaDevices = 1 then Inr (hd metaDevices)
      else
        (case classify_devices c metaDevices no_tiers of
           Inl e \<Rightarrow> Inl e
         | Inr t \<Rightarrow>
             if CPU t = [] \<and> dGPU t = [] \<and> iGPU t = [] \<and> MYRIAD t = [] \<and> VPUX t = []
             then Inl (NotFound ''No available device found'')
             else
               (case walk_tiers c networkPrecision t of
                  Inl e \<Rightarrow> Inl e
                | Inr (Some item) \<Rightarrow> Inr item
                | Inr None \<Rightarrow>
                    (case (if networkPrecision = ''FP32'' then walk_tiers c ''FP16'' t
                           else Inr None) of
                       Inl e \<Rightarrow> Inl e
                     | Inr (Some item) \<Rightarrow> Inr item
                     | Inr None \<Rightarrow>
                         if CPU t = [] then Inl (GeneralError ''Cannot select any device'')
                         else Inr (hd (CPU t))))))"

subsection \<open>LoadNetworkImpl\<close>

text \<open>
  The handle that \<^verbatim>\<open>LoadNetworkImpl\<close> returns. A future started with \<^verbatim>\<open>std::async\<close> is
  the device whose \<^verbatim>\<open>LoadNetwork\<close> it runs; a future never started is \<open>None\<close>.
\<close>

record AutoExecutableNetwork =
  cpuFuture :: "DeviceName option"
  acceleratorFuture :: "DeviceName option"
  enablePerfCount :: bool

definition LoadNetworkImpl ::
  "plugin \<Rightarrow> string \<Rightarrow> CNNNetwork \<Rightarrow> ConfigType \<Rightarrow> string \<Rightarrow> ie_error + AutoExecutableNetwork" where
  "LoadNetworkImpl p modelPath network config networkPrecision =
     (case plugin_core p of
        None \<Rightarrow> Inl (GeneralError ''Please, work with AUTO device via InferencEngine::Core object'')
      | Some c \<Rightarrow>
          if modelPath = [] \<and> network = None
          then Inl (GeneralError ''AUTO device supports just ngraph network representation'')
          else
            (let fullConfig = mergeConfigs (plugin_config p) config in
             case fst (CheckConfig p fullConfig) of
               Inl e \<Rightarrow> Inl e
             | Inr u \<Rightarrow>
                 (case GetDeviceList c fullConfig of
                    Inl e \<Rightarrow> Inl e
                  | Inr metaDevices \<Rightarrow>
                      (let CPUIter = find (\<lambda>d. str_find d ''CPU'' \<noteq> None) metaDevices in
                       case SelectDevice c metaDevices networkPrecision of
                         Inl e \<Rightarrow> Inl e
                       | Inr accelerator \<Rightarrow>
                           (let isAccelerator = (str_find accelerator ''CPU'' = None) in
                            Inr \<lparr>cpuFuture = CPUIter,
                                 acceleratorFuture =
                                   (if isAccelerator then Some accelerator else None),
                                 enablePerfCount =
                                   (map_of fullConfig KEY_PERF_COUNT \<noteq> None)\<rparr>)))))"

subsection \<open>QueryNetwork\<close>

text \<open>
  Modelled from the spec: \<^verbatim>\<open>IE::details::Intersection\<close> (ie_algorithm.hpp, not among the
  sources): the intersection of two sets.
\<close>

definition Intersection :: "string set \<Rightarrow> string set \<Rightarrow> string set" where
  "Intersection a b = a \<inter> b"

text \<open>
  The scan over \<^verbatim>\<open>metaDevices\<close>: \<^verbatim>\<open>catch (...)\<close> goes on to the next device, the
  \<^verbatim>\<open>break\<close> at the end of the \<^verbatim>\<open>try\<close> block ends the loop.
\<close>

fun QueryNetwork_loop :: "core \<Rightarrow> CNNNetwork \<Rightarrow> DeviceName list \<Rightarrow> string set \<Rightarrow> string set" where
  "QueryNetwork_loop c network [] supportedLayers = supportedLayers"
| "QueryNetwork_loop c network (value # rest) supportedLayers =
     (case core_QueryNetwork c network value of
        Inl e \<Rightarrow> QueryNetwork_loop c network rest supportedLayers
      | Inr deviceQr \<Rightarrow>
          (let deviceSupportedLayers = set (map fst deviceQr) in
           if supportedLayers = {} then deviceSupportedLayers
           else if deviceSupportedLayers = {} then supportedLayers
           else Intersection supportedLayers deviceSupportedLayers))"

text \<open>\<^verbatim>\<open>queryResult.supportedLayersMap\<close>, a map from layer name to device name.\<close>

definition QueryNetwork :: "plugin \<Rightarrow> CNNNetwork \<Rightarrow> ConfigType \<Rightarrow> ie_error + (string \<rightharpoonup> string)" where
  "QueryNetwork p network config =
     (case plugin_core p of
        None \<Rightarrow> Inl (GeneralError ''Please, work with AUTO device via InferencEngine::Core object'')
      | Some c \<Rightarrow>
          if network = None
          then Inl (GeneralError ''AUTO device supports just ngraph network representation'')
          else
            (let fullConfig = mergeConfigs (plugin_config p) config in
             case GetDeviceList c fullConfig of
               Inl e \<Rightarrow> Inl e
             | Inr metaDevices \<Rightarrow>
                 (let supportedLayers = QueryNetwork_loop c network metaDevices {} in
                  Inr (\<lambda>supportedLayer.
                         if supportedLayer \<in> supportedLayers then Some (GetName p) else None))))"

subsection \<open>Notions used to state the properties\<close>

text \<open>
  The five tiers as predicates on a device: the identifier prefix and, for the generic
  accelerator prefix, the marker in the full device name.
\<close>

definition is_CPU :: "DeviceName \<Rightarrow> bool" where
  "is_CPU d = prefix ''CPU'' d"

definition is_MYRIAD :: "DeviceName \<Rightarrow> bool" where
  "is_MYRIAD d = prefix ''MYRIAD'' d"

definition is_VPUX :: "DeviceName \<Rightarrow> bool" where
  "is_VPUX d = prefix ''VPUX'' d"

definition is_iGPU :: "core \<Rightarrow> DeviceName \<Rightarrow> bool" where
  "is_iGPU c d =
     (prefix ''GPU'' d \<and>
      (case GetMetric_FULL_DEVICE_NAME c d of
         Inl e \<Rightarrow> False
       | Inr fullName \<Rightarrow> sublist ''iGPU'' fullName))"

definition is_dGPU :: "core \<Rightarrow> DeviceName \<Rightarrow> bool" where
  "is_dGPU c d =
     (prefix ''GPU'' d \<and>
      (case GetMetric_FULL_DEVICE_NAME c d of
         Inl e \<Rightarrow> False
       | Inr fullName \<Rightarrow> \<not> sublist ''iGPU'' fullName \<and> sublist ''dGPU'' fullName))"

text \<open>The partition of a device list into the five tiers, each in list order.\<close>

definition tiers_of :: "core \<Rightarrow> DeviceName list \<Rightarrow> tiers" where
  "tiers_of c devs =
     \<lparr>CPU = filter is_CPU devs, dGPU = filter (is_dGPU c) devs, iGPU = filter (is_iGPU c) devs,
      MYRIAD = filter is_MYRIAD devs, VPUX = filter is_VPUX devs\<rparr>"

definition append_tiers :: "tiers \<Rightarrow> tiers \<Rightarrow> tiers" where
  "append_tiers t u =
     \<lparr>CPU = CPU t @ CPU u, dGPU = dGPU t @ dGPU u, iGPU = iGPU t @ iGPU u,
      MYRIAD = MYRIAD t @ MYRIAD u, VPUX = VPUX t @ VPUX u\<rparr>"

text \<open>The identifier matches one of the four prefixes the classification knows.\<close>

definition known_prefix :: "DeviceName \<Rightarrow> bool" where
  "known_prefix d = (prefix ''CPU'' d \<or> prefix ''MYRIAD'' d \<or> prefix ''VPUX'' d \<or> prefix ''GPU'' d)"

text \<open>A device with the generic accelerator prefix whose full name carries neither marker.\<close>

definition unmarked_GPU :: "core \<Rightarrow> DeviceName \<Rightarrow> bool" where
  "unmarked_GPU c d =
     (prefix ''GPU'' d \<and>
      (case GetMetric_FULL_DEVICE_NAME c d of
         Inl e \<Rightarrow> False
       | Inr fullName \<Rightarrow> \<not> sublist ''iGPU'' fullName \<and> \<not> sublist ''dGPU'' fullName))"

text \<open>In how many of the five buckets a device is.\<close>

definition bucket_count :: "tiers \<Rightarrow> DeviceName \<Rightarrow> nat" where
  "bucket_count t d = length (filter (\<lambda>b. d \<in> set b) [CPU t, dGPU t, iGPU t, MYRIAD t, VPUX t])"

text \<open>
  The full-name query is issued for a device with the generic accelerator prefix only;
  \<open>name_query_fails\<close> says that it is issued and throws.
\<close>

definition name_query_fails :: "core \<Rightarrow> DeviceName \<Rightarrow> bool" where
  "name_query_fails c d = (prefix ''GPU'' d \<and> isl (GetMetric_FULL_DEVICE_NAME c d))"

text \<open>The device advertises the precision: its capability query succeeds and lists it.\<close>

definition supports :: "core \<Rightarrow> string \<Rightarrow> DeviceName \<Rightarrow> bool" where
  "supports c precision d =
     (case GetMetric_OPTIMIZATION_CAPABILITIES c d of
        Inl e \<Rightarrow> False
      | Inr capability \<Rightarrow> precision \<in> set capability)"

text \<open>A tier loop ends at this device: its capability query throws, or it lists the precision.\<close>

definition answers :: "core \<Rightarrow> string \<Rightarrow> DeviceName \<Rightarrow> bool" where
  "answers c precision d =
     (isl (GetMetric_OPTIMIZATION_CAPABILITIES c d) \<or> supports c precision d)"

text \<open>Every query that device selection may issue on the list succeeds.\<close>

definition queries_succeed :: "core \<Rightarrow> DeviceName list \<Rightarrow> bool" where
  "queries_succeed c devs =
     list_all (\<lambda>d. \<not> name_query_fails c d \<and> \<not> isl (GetMetric_OPTIMIZATION_CAPABILITIES c d)) devs"

text \<open>The first non-empty tier in the order dGPU, VPUX, iGPU, MYRIAD (empty when all are).\<close>

definition first_nonempty_tier :: "tiers \<Rightarrow> DeviceName list" where
  "first_nonempty_tier t =
     (if dGPU t \<noteq> [] then dGPU t
      else if VPUX t \<noteq> [] then VPUX t
      else if iGPU t \<noteq> [] then iGPU t
      else MYRIAD t)"

text \<open>
  The precision classifier in the specification's words: a quantization marker gives
  \<^verbatim>\<open>INT8\<close>; otherwise the first convolution-family operator whose weights have the
  type name \<^verbatim>\<open>f32\<close> or \<^verbatim>\<open>f16\<close> decides; \<^verbatim>\<open>FP32\<close> when there is none.
\<close>

text \<open>
  The convolution family of the specification: the plain and the grouped convolution,
  their transposed (backward-data) variants, and the two internal forms of the plain and
  the transposed convolution. Every operator type is listed with its answer.
\<close>

fun convolution_family :: "op_type \<Rightarrow> bool" where
  "convolution_family FakeQuantize = False"
| "convolution_family Convolution = True"
| "convolution_family GroupConvolution = True"
| "convolution_family GroupConvolutionBackpropData = True"
| "convolution_family ConvolutionBackpropData = True"
| "convolution_family ConvolutionIE = True"
| "convolution_family DeconvolutionIE = True"
| "convolution_family OtherOp = False"

definition recognized_weights :: "node \<Rightarrow> bool" where
  "recognized_weights n =
     (convolution_family (type_info n) \<and>
      (input1_type_name n = ''f32'' \<or> input1_type_name n = ''f16''))"

definition classify :: "node list \<Rightarrow> string" where
  "classify g =
     (if FakeQuantize \<in> type_info ` set g then ''INT8''
      else case find recognized_weights g of
             None \<Rightarrow> ''FP32''
           | Some n \<Rightarrow> if input1_type_name n = ''f32'' then ''FP32'' else ''FP16'')"

text \<open>
  Validation in the specification's words. An entry is accepted when its key has the
  reserved prefix, or is the toggle key with the value \<^verbatim>\<open>YES\<close> or \<^verbatim>\<open>NO\<close>. A rejected
  entry gives the unsupported-value error when its key is the toggle key and the
  unsupported-key error otherwise. A map is rejected with the error of its first rejected
  entry in key order.
\<close>

definition accepted_entry :: "string \<times> string \<Rightarrow> bool" where
  "accepted_entry kv =
     (prefix ''AUTO_'' (fst kv) \<or>
      (fst kv = ''PERF_COUNT'' \<and> (snd kv = ''YES'' \<or> snd kv = ''NO'')))"

definition entry_error :: "string \<times> string \<Rightarrow> ie_error" where
  "entry_error kv =
     (if fst kv = ''PERF_COUNT''
      then GeneralError (''Unsupported config value: '' @ snd kv @ '' for key: '' @ fst kv)
      else GeneralError (''Unsupported config key: '' @ fst kv))"

definition validate :: "ConfigType \<Rightarrow> ie_error + unit" where
  "validate config =
     (case find (\<lambda>kv. \<not> accepted_entry kv) config of
        None \<Rightarrow> Inr ()
      | Some kv \<Rightarrow> Inl (entry_error kv))"

text \<open>The mapping that names one owner for every layer of a set.\<close>

definition attribute_layers :: "string \<Rightarrow> string set \<Rightarrow> (string \<rightharpoonup> string)" where
  "attribute_layers owner layers = (\<lambda>layer. if layer \<in> layers then Some owner else None)"

definition query_fails :: "core \<Rightarrow> CNNNetwork \<Rightarrow> DeviceName \<Rightarrow> bool" where
  "query_fails c network d = isl (core_QueryNetwork c network d)"

subsection \<open>An example core\<close>

text \<open>
  A core with a processor, accelerators of every tier, an accelerator whose full name
  carries no marker (\<^verbatim>\<open>GPU.2\<close>), one whose full-name query throws (\<^verbatim>\<open>GPU.3\<close>), a discrete
  one without floating-point capabilities (\<^verbatim>\<open>GPU.4\<close>) and a discrete one whose capability
  query throws (\<^verbatim>\<open>GPU.5\<close>). Only \<^verbatim>\<open>GPU.0\<close> answers the operation-support query. The
  device-list parser of the example reads a list of one device.
\<close>

definition example_core :: core where
  "example_core =
     \<lparr>GetAvailableDevices = [''CPU'', ''GPU.0''],
      getHeteroDevices = (\<lambda>s. [s]),
      GetMetric_FULL_DEVICE_NAME =
        (\<lambda>d. if d = ''GPU.0'' then Inr ''Intel(R) Iris(R) Xe MAX Graphics (dGPU)''
             else if d = ''GPU.1'' then Inr ''Intel(R) UHD Graphics 620 (iGPU)''
             else if d = ''GPU.2'' then Inr ''Intel(R) HD Graphics''
             else if d = ''GPU.3'' then Inl (GeneralError ''Failed to query GPU.3'')
             else if d = ''GPU.4'' then Inr ''Intel(R) Arc(TM) Graphics (dGPU)''
             else if d = ''GPU.5'' then Inr ''Intel(R) Arc(TM) Graphics (dGPU)''
             else Inr d),
      GetMetric_OPTIMIZATION_CAPABILITIES =
        (\<lambda>d. if d = ''GPU.0'' then Inr [''FP32'', ''FP16'', ''INT8'']
             else if d = ''GPU.1'' then Inr [''FP16'']
             else if d = ''GPU.4'' then Inr [''INT8'']
             else if d = ''GPU.5'' then Inl (GeneralError ''Failed to query GPU.5'')
             else if d = ''VPUX'' then Inr [''FP16'']
             else if d = ''MYRIAD'' then Inr [''FP16'']
             else Inr [''FP32'', ''INT8'']),
      core_QueryNetwork =
        (\<lambda>network d. if d = ''GPU.0'' then Inr [(''opA'', ''GPU.0''), (''opB'', ''GPU.0'')]
             else Inl (GeneralError ''Failed to query the network''))\<rparr>"

definition example_plugin :: plugin where
  "example_plugin = AutoInferencePlugin\<lparr>plugin_core := Some example_core\<rparr>"

section \<open>Auxiliary facts\<close>

subsection \<open>Strings and lists\<close>

lemma str_find_0_iff: "str_find s pat = Some 0 \<longleftrightarrow> prefix pat s"
  by (cases s) auto

lemma str_find_None_iff: "str_find s pat = None \<longleftrightarrow> \<not> sublist pat s"
  by (induction s) (auto simp: sublist_Cons_right)

lemma prefixes_exclusive:
  "prefix ''CPU'' d \<Longrightarrow> \<not> prefix ''MYRIAD'' d \<and> \<not> prefix ''VPUX'' d \<and> \<not> prefix ''GPU'' d"
  "prefix ''MYRIAD'' d \<Longrightarrow> \<not> prefix ''VPUX'' d \<and> \<not> prefix ''GPU'' d"
  "prefix ''VPUX'' d \<Longrightarrow> \<not> prefix ''GPU'' d"
  by (cases d; simp)+

lemma find_SomeD: "find P xs = Some x \<Longrightarrow> P x \<and> x \<in> set xs"
  by (auto simp: find_Some_iff)

lemma find_filter_exists: "\<exists>d\<in>set xs. P d \<and> Q d \<Longrightarrow> \<exists>x. find Q (filter P xs) = Some x"
  by (cases "find Q (filter P xs)") (auto simp: find_None_iff)

subsection \<open>Configuration maps\<close>

lemma map_of_assign: "map_of (assign k v c) = (map_of c)(k \<mapsto> v)"
  by (induction c) (auto simp: fun_upd_twist)

lemma set_assign_subset: "set (assign k v c) \<subseteq> insert (k, v) (set c)"
  by (induction c) (auto split: if_splits)

lemma wf_assign: "wf_config c \<Longrightarrow> wf_config (assign k v c)"
  unfolding wf_config_def
proof (induction c)
  case Nil
  then show ?case by simp
next
  case (Cons a c)
  obtain k' v' where a: "a = (k', v')" by (cases a)
  show ?case
  proof (cases "k = k' \<or> k < k'")
    case True
    then show ?thesis using Cons.prems by (auto simp: a)
  next
    case False
    then have lt: "k' < k" by auto
    have "\<forall>x\<in>set (assign k v c). k' < fst x"
      using set_assign_subset[of k v c] Cons.prems lt by (auto simp: a)
    then show ?thesis using False Cons by (auto simp: a)
  qed
qed

lemma wf_distinct: "wf_config c \<Longrightarrow> distinct (map fst c)"
  unfolding wf_config_def by (simp add: strict_sorted_iff)

lemma wf_mergeConfigs: "wf_config a \<Longrightarrow> wf_config (mergeConfigs a b)"
  by (induction b arbitrary: a) (auto simp: wf_assign)

lemma map_of_mergeConfigs:
  "distinct (map fst b) \<Longrightarrow> map_of (mergeConfigs a b) = map_of a ++ map_of b"
proof (induction b arbitrary: a)
  case Nil
  then show ?case by simp
next
  case (Cons x b)
  obtain k v where x: "x = (k, v)" by (cases x)
  have "k \<notin> dom (map_of b)" using Cons.prems by (auto simp: x dom_map_of_conv_image_fst)
  then have none: "map_of b k = None" by blast
  have "map_of (mergeConfigs a (x # b)) = map_of (mergeConfigs (assign k v a) b)"
    by (simp add: x)
  also have "\<dots> = map_of (assign k v a) ++ map_of b"
    using Cons.prems by (intro Cons.IH) simp
  also have "\<dots> = (map_of a)(k \<mapsto> v) ++ map_of b"
    by (simp only: map_of_assign)
  also have "\<dots> = (map_of a ++ map_of b)(k \<mapsto> v)"
    using none by (intro ext) (auto simp: map_add_def split: option.splits)
  also have "\<dots> = map_of a ++ map_of (x # b)"
    by (simp add: x)
  finally show ?case .
qed

lemma CheckConfig_loop_validate: "CheckConfig_loop config = validate config"
proof (induction config)
  case Nil
  show ?case by (simp add: validate_def)
next
  case (Cons kv config)
  obtain k v where kv: "kv = (k, v)" by (cases kv)
  show ?case using Cons
    by (auto simp: kv validate_def accepted_entry_def entry_error_def str_find_0_iff
        KEY_PERF_COUNT_def YES_def NO_def)
qed

subsection \<open>The precision loop\<close>

lemma GetNetworkPrecision_loop_find:
  "GetNetworkPrecision_loop g =
     (case find recognized_weights g of
        None \<Rightarrow> ''FP32''
      | Some n \<Rightarrow> if input1_type_name n = ''f32'' then ''FP32'' else ''FP16'')"
proof (induction g)
  case Nil
  show ?case by simp
next
  case (Cons n ns)
  have fam: "is_convolution_family n = convolution_family (type_info n)"
    by (cases "type_info n") (simp_all add: is_convolution_family_def)
  show ?case using Cons by (simp add: fam recognized_weights_def Let_def)
qed

subsection \<open>Classification and the tier walk\<close>

lemma append_tiers_no_tiers: "append_tiers no_tiers t = t"
  by (simp add: append_tiers_def no_tiers_def)

text \<open>
  The classification loop throws the error of the first full-name query that fails;
  when none does, it appends to each vector the members of its tier, in list order.
\<close>

lemma classify_devices_find:
  "classify_devices c devs t =
     (case find (name_query_fails c) devs of
        Some d \<Rightarrow> Inl (projl (GetMetric_FULL_DEVICE_NAME c d))
      | None \<Rightarrow> Inr (append_tiers t (tiers_of c devs)))"
proof (induction devs arbitrary: t)
  case Nil
  show ?case by (simp add: append_tiers_def tiers_of_def)
next
  case (Cons item rest)
  consider (cpu) "prefix ''CPU'' item" | (myriad) "prefix ''MYRIAD'' item"
    | (vpux) "prefix ''VPUX'' item" | (gpu) "prefix ''GPU'' item"
    | (other) "\<not> prefix ''CPU'' item" "\<not> prefix ''MYRIAD'' item" "\<not> prefix ''VPUX'' item"
        "\<not> prefix ''GPU'' item"
    by blast
  then show ?case
  proof cases
    case cpu
    then show ?thesis using prefixes_exclusive(1)[OF cpu]
      by (simp add: Cons str_find_0_iff name_query_fails_def append_tiers_def tiers_of_def
          is_CPU_def is_MYRIAD_def is_VPUX_def is_iGPU_def is_dGPU_def split: option.splits)
  next
    case myriad
    then have "\<not> prefix ''CPU'' item" using prefixes_exclusive(1) by blast
    then show ?thesis using prefixes_exclusive(2)[OF myriad] myriad
      by (simp add: Cons str_find_0_iff name_query_fails_def append_tiers_def tiers_of_def
          is_CPU_def is_MYRIAD_def is_VPUX_def is_iGPU_def is_dGPU_def split: option.splits)
  next
    case vpux
    then have "\<not> prefix ''CPU'' item" "\<not> prefix ''MYRIAD'' item"
      using prefixes_exclusive by blast+
    then show ?thesis using prefixes_exclusive(3)[OF vpux] vpux
      by (simp add: Cons str_find_0_iff name_query_fails_def append_tiers_def tiers_of_def
          is_CPU_def is_MYRIAD_def is_VPUX_def is_iGPU_def is_dGPU_def split: option.splits)
  next
    case gpu
    then have no: "\<not> prefix ''CPU'' item" "\<not> prefix ''MYRIAD'' item" "\<not> prefix ''VPUX'' item"
      using prefixes_exclusive by blast+
    show ?thesis
    proof (cases "GetMetric_FULL_DEVICE_NAME c item")
      case (Inl e)
      then show ?thesis using no gpu
        by (simp add: str_find_0_iff name_query_fails_def)
    next
      case (Inr fullName)
      then show ?thesis using no gpu
        by (simp add: Cons str_find_0_iff str_find_None_iff name_query_fails_def
            append_tiers_def tiers_of_def
            is_CPU_def is_MYRIAD_def is_VPUX_def is_iGPU_def is_dGPU_def split: option.splits)
    qed
  next
    case other
    then show ?thesis
      by (simp add: Cons str_find_0_iff name_query_fails_def append_tiers_def tiers_of_def
          is_CPU_def is_MYRIAD_def is_VPUX_def is_iGPU_def is_dGPU_def split: option.splits)
  qed
qed

lemma first_supporting_find:
  "first_supporting c precision xs =
     (case find (answers c precision) xs of
        None \<Rightarrow> Inr None
      | Some d \<Rightarrow>
          (case GetMetric_OPTIMIZATION_CAPABILITIES c d of
             Inl e \<Rightarrow> Inl e
           | Inr capability \<Rightarrow> Inr (Some d)))"
  by (induction xs) (auto simp: answers_def supports_def split: sum.splits)

lemma walk_tiers_find:
  "walk_tiers c precision t =
     (case find (answers c precision) (first_nonempty_tier t) of
        None \<Rightarrow> Inr None
      | Some d \<Rightarrow>
          (case GetMetric_OPTIMIZATION_CAPABILITIES c d of
             Inl e \<Rightarrow> Inl e
           | Inr capability \<Rightarrow> Inr (Some d)))"
  by (cases "MYRIAD t") (simp_all add: walk_tiers_def first_nonempty_tier_def first_supporting_find)

lemma first_nonempty_tier_subset: "set (first_nonempty_tier (tiers_of c devs)) \<subseteq> set devs"
  by (auto simp: first_nonempty_tier_def tiers_of_def)

lemma queries_succeed_names: "queries_succeed c devs \<Longrightarrow> find (name_query_fails c) devs = None"
  by (auto simp: queries_succeed_def find_None_iff list_all_iff)

lemma queries_succeed_answers:
  assumes "queries_succeed c devs" and "set xs \<subseteq> set devs"
  shows "find (answers c precision) xs = find (supports c precision) xs"
  using assms by (intro find_cong) (auto simp: queries_succeed_def list_all_iff answers_def)

lemma walk_tiers_succeed:
  assumes "queries_succeed c devs"
  shows "walk_tiers c precision (tiers_of c devs) =
           Inr (find (supports c precision) (first_nonempty_tier (tiers_of c devs)))"
proof -
  let ?F = "first_nonempty_tier (tiers_of c devs)"
  have eq: "find (answers c precision) ?F = find (supports c precision) ?F"
    using assms first_nonempty_tier_subset by (rule queries_succeed_answers)
  show ?thesis
  proof (cases "find (supports c precision) ?F")
    case None
    then show ?thesis by (simp add: walk_tiers_find eq)
  next
    case (Some d)
    then have "supports c precision d" by (auto dest: find_SomeD)
    then obtain cap where "GetMetric_OPTIMIZATION_CAPABILITIES c d = Inr cap"
      by (auto simp: supports_def split: sum.splits)
    then show ?thesis using Some by (simp add: walk_tiers_find eq)
  qed
qed

lemma no_tier_iff:
  "(CPU t = [] \<and> dGPU t = [] \<and> iGPU t = [] \<and> MYRIAD t = [] \<and> VPUX t = []) \<longleftrightarrow>
   (CPU t = [] \<and> first_nonempty_tier t = [])"
  by (auto simp: first_nonempty_tier_def)

text \<open>What \<open>SelectDevice\<close> computes on a list of two or more devices when no query throws.\<close>

lemma SelectDevice_succeed:
  assumes "2 \<le> length devs" and "queries_succeed c devs"
  shows "SelectDevice c devs precision =
     (if CPU (tiers_of c devs) = [] \<and> first_nonempty_tier (tiers_of c devs) = []
      then Inl (NotFound ''No available device found'')
      else case find (supports c precision) (first_nonempty_tier (tiers_of c devs)) of
             Some x \<Rightarrow> Inr x
           | None \<Rightarrow>
               (case (if precision = ''FP32''
                      then find (supports c ''FP16'') (first_nonempty_tier (tiers_of c devs))
                      else None) of
                  Some x \<Rightarrow> Inr x
                | None \<Rightarrow>
                    if CPU (tiers_of c devs) = [] then Inl (GeneralError ''Cannot select any device'')
                    else Inr (hd (CPU (tiers_of c devs)))))"
proof -
  have ne: "devs \<noteq> []" "length devs \<noteq> Suc 0" using assms(1) by auto
  have cl: "classify_devices c devs no_tiers = Inr (tiers_of c devs)"
    using queries_succeed_names[OF assms(2)]
    by (simp add: classify_devices_find append_tiers_no_tiers)
  show ?thesis
    unfolding SelectDevice_def
    by (simp add: ne cl no_tier_iff walk_tiers_succeed[OF assms(2)] split: option.splits)
qed

lemma is_dGPU_exclusive:
  "is_dGPU c x \<Longrightarrow> \<not> is_CPU x \<and> \<not> is_VPUX x \<and> \<not> is_iGPU c x \<and> \<not> is_MYRIAD x"
  using prefixes_exclusive[of x]
  by (auto simp: is_dGPU_def is_CPU_def is_VPUX_def is_iGPU_def is_MYRIAD_def split: sum.splits)

lemma unknown_no_tiers:
  assumes "list_all (\<lambda>d. \<not> known_prefix d) devs"
  shows "tiers_of c devs = no_tiers" and "find (name_query_fails c) devs = None"
  using assms
  by (auto simp: tiers_of_def no_tiers_def list_all_iff known_prefix_def is_CPU_def is_MYRIAD_def
      is_VPUX_def is_iGPU_def is_dGPU_def name_query_fails_def find_None_iff filter_empty_conv)

lemma bucket_count_tiers_of:
  assumes "d \<in> set devs"
  shows "bucket_count (tiers_of c devs) d =
           (if is_CPU d then 1 else 0) + (if is_dGPU c d then 1 else 0) +
           (if is_iGPU c d then 1 else 0) + (if is_MYRIAD d then 1 else 0) +
           (if is_VPUX d then 1 else 0)"
  using assms by (simp add: bucket_count_def tiers_of_def)

lemma bucket_count_outside: "d \<notin> set devs \<Longrightarrow> bucket_count (tiers_of c devs) d = 0"
  by (simp add: bucket_count_def tiers_of_def)

subsection \<open>The operation-support scan and the load\<close>

lemma QueryNetwork_loop_all_fail:
  "list_all (query_fails c network) devs \<Longrightarrow> QueryNetwork_loop c network devs acc = acc"
proof (induction devs)
  case Nil
  show ?case by simp
next
  case (Cons a devs)
  then obtain e where "core_QueryNetwork c network a = Inl e"
    by (auto simp: query_fails_def isl_def)
  then show ?case using Cons by simp
qed

lemma QueryNetwork_loop_first_answer:
  assumes "list_all (query_fails c network) pre" and "core_QueryNetwork c network d = Inr qr"
  shows "QueryNetwork_loop c network (pre @ d # rest) {} = fst ` set qr"
  using assms
proof (induction pre)
  case Nil
  then show ?case by simp
next
  case (Cons a pre)
  then obtain e where "core_QueryNetwork c network a = Inl e"
    by (auto simp: query_fails_def isl_def)
  then show ?case using Cons by simp
qed

lemma LoadNetworkImpl_flag:
  assumes "LoadNetworkImpl p modelPath network config precision = Inr h"
  shows "enablePerfCount h =
           (map_of (mergeConfigs (plugin_config p) config) KEY_PERF_COUNT \<noteq> None)"
proof (cases "plugin_core p")
  case None
  then show ?thesis using assms by (simp add: LoadNetworkImpl_def)
next
  case (Some c)
  let ?full = "mergeConfigs (plugin_config p) config"
  show ?thesis
  proof (cases "GetDeviceList c ?full")
    case (Inl e)
    then show ?thesis using assms Some
      by (simp add: LoadNetworkImpl_def Let_def split: if_splits sum.splits)
  next
    case (Inr metaDevices)
    show ?thesis
    proof (cases "SelectDevice c metaDevices precision")
      case (Inl e)
      then show ?thesis using assms Some Inr
        by (simp add: LoadNetworkImpl_def Let_def split: if_splits sum.splits)
    next
      case acc: (Inr accelerator)
      then show ?thesis using assms Some Inr
        by (simp add: LoadNetworkImpl_def Let_def split: if_splits sum.splits) auto
    qed
  qed
qed

subsection \<open>The example core\<close>

lemma example_names [simp]:
  "GetMetric_FULL_DEVICE_NAME example_core ''GPU.0'' = Inr ''Intel(R) Iris(R) Xe MAX Graphics (dGPU)''"
  "GetMetric_FULL_DEVICE_NAME example_core ''GPU.1'' = Inr ''Intel(R) UHD Graphics 620 (iGPU)''"
  "GetMetric_FULL_DEVICE_NAME example_core ''GPU.2'' = Inr ''Intel(R) HD Graphics''"
  "GetMetric_FULL_DEVICE_NAME example_core ''GPU.3'' = Inl (GeneralError ''Failed to query GPU.3'')"
  "GetMetric_FULL_DEVICE_NAME example_core ''GPU.4'' = Inr ''Intel(R) Arc(TM) Graphics (dGPU)''"
  "GetMetric_FULL_DEVICE_NAME example_core ''GPU.5'' = Inr ''Intel(R) Arc(TM) Graphics (dGPU)''"
  by (simp_all add: example_core_def)

lemma example_capabilities [simp]:
  "GetMetric_OPTIMIZATION_CAPABILITIES example_core ''CPU'' = Inr [''FP32'', ''INT8'']"
  "GetMetric_OPTIMIZATION_CAPABILITIES example_core ''GPU.0'' = Inr [''FP32'', ''FP16'', ''INT8'']"
  "GetMetric_OPTIMIZATION_CAPABILITIES example_core ''GPU.1'' = Inr [''FP16'']"
  "GetMetric_OPTIMIZATION_CAPABILITIES example_core ''GPU.4'' = Inr [''INT8'']"
  "GetMetric_OPTIMIZATION_CAPABILITIES example_core ''GPU.5'' = Inl (GeneralError ''Failed to query GPU.5'')"
  "GetMetric_OPTIMIZATION_CAPABILITIES example_core ''VPUX'' = Inr [''FP16'']"
  by (simp_all add: example_core_def)

lemmas tier_defs =
  tiers_of_def first_nonempty_tier_def is_CPU_def is_MYRIAD_def is_VPUX_def is_iGPU_def
  is_dGPU_def sublist_code(3)

section \<open>The claims\<close>

subsection \<open>C1: an exact match in the first non-empty tier\<close>

text \<open>
  Claim C1. On a device list of two or more devices on which every per-device query
  succeeds: if some discrete-accelerator (dGPU) member advertises the requested
  precision, \<open>SelectDevice\<close> returns a dGPU member that advertises it, which is in no
  other tier (not the processor tier, not VPUX, iGPU or MYRIAD); and whenever the first
  non-empty tier in the order dGPU, VPUX, iGPU, MYRIAD has a member that advertises the
  precision, \<open>SelectDevice\<close> returns the first such member.
\<close>

theorem SelectDevice_prefers_dGPU:
  assumes "2 \<le> length devs" and "queries_succeed c devs"
  shows "((\<exists>d\<in>set devs. is_dGPU c d \<and> supports c precision d) \<longrightarrow>
            (\<exists>x. SelectDevice c devs precision = Inr x \<and> x \<in> set devs \<and>
                 is_dGPU c x \<and> supports c precision x \<and>
                 \<not> is_CPU x \<and> \<not> is_VPUX x \<and> \<not> is_iGPU c x \<and> \<not> is_MYRIAD x)) \<and>
         (\<forall>x. find (supports c precision) (first_nonempty_tier (tiers_of c devs)) = Some x \<longrightarrow>
              SelectDevice c devs precision = Inr x)"
proof (intro conjI impI allI)
  fix x
  assume "find (supports c precision) (first_nonempty_tier (tiers_of c devs)) = Some x"
  then show "SelectDevice c devs precision = Inr x"
    by (auto simp: SelectDevice_succeed[OF assms] dest: find_SomeD)
next
  assume ex: "\<exists>d\<in>set devs. is_dGPU c d \<and> supports c precision d"
  then have ne: "filter (is_dGPU c) devs \<noteq> []"
    by (auto simp: filter_empty_conv)
  then have F: "first_nonempty_tier (tiers_of c devs) = filter (is_dGPU c) devs"
    by (simp add: first_nonempty_tier_def tiers_of_def)
  obtain x where x: "find (supports c precision) (filter (is_dGPU c) devs) = Some x"
    using find_filter_exists[OF ex] by blast
  then have sel: "SelectDevice c devs precision = Inr x"
    using ne by (simp add: SelectDevice_succeed[OF assms] F)
  have "supports c precision x" "x \<in> set devs" "is_dGPU c x"
    using find_SomeD[OF x] by auto
  then show "\<exists>x. SelectDevice c devs precision = Inr x \<and> x \<in> set devs \<and>
                 is_dGPU c x \<and> supports c precision x \<and>
                 \<not> is_CPU x \<and> \<not> is_VPUX x \<and> \<not> is_iGPU c x \<and> \<not> is_MYRIAD x"
    using sel is_dGPU_exclusive[of c x] by blast
qed

theorem SelectDevice_prefers_dGPU_witness:
  "queries_succeed example_core [''CPU'', ''GPU.1'', ''GPU.0''] \<and>
   is_dGPU example_core ''GPU.0'' \<and> supports example_core ''FP32'' ''GPU.0'' \<and>
   SelectDevice example_core [''CPU'', ''GPU.1'', ''GPU.0''] ''FP32'' = Inr ''GPU.0''"
proof -
  have len: "2 \<le> length [''CPU'', ''GPU.1'', ''GPU.0'']" by simp
  have ok: "queries_succeed example_core [''CPU'', ''GPU.1'', ''GPU.0'']"
    by (simp add: queries_succeed_def name_query_fails_def)
  have d: "is_dGPU example_core ''GPU.0''" "supports example_core ''FP32'' ''GPU.0''"
    by (simp_all add: tier_defs supports_def)
  have "find (supports example_core ''FP32'')
          (first_nonempty_tier (tiers_of example_core [''CPU'', ''GPU.1'', ''GPU.0''])) =
        Some ''GPU.0''"
    by (simp add: tier_defs supports_def)
  then have "SelectDevice example_core [''CPU'', ''GPU.1'', ''GPU.0''] ''FP32'' = Inr ''GPU.0''"
    using SelectDevice_prefers_dGPU[OF len ok, of "''FP32''"] by blast
  then show ?thesis using ok d by simp
qed

subsection \<open>C2: the FP16 pass\<close>

text \<open>
  Claim C2. On an \<^verbatim>\<open>FP32\<close> request for which no tier member advertises \<^verbatim>\<open>FP32\<close> and
  some device advertises \<^verbatim>\<open>FP16\<close>, \<open>SelectDevice\<close> is to return that device, walking the
  tiers in the order dGPU, VPUX, iGPU, MYRIAD. The source says the same in its comments
  (\<^verbatim>\<open>Priority of selecting device: dGPU > VPUX > iGPU > MYRIAD > CPU\<close> and
  \<^verbatim>\<open>If network is FP32 but there is no device support FP32, offload FP32 network to device
  support FP16\<close>), but both passes are one \<^verbatim>\<open>if ... else if\<close> chain that enters the first
  non-empty tier only and never goes on to the next. The code at the list of a discrete
  accelerator that lists neither precision and a VPUX device that lists \<^verbatim>\<open>FP16\<close>: every
  query succeeds, the two devices are classified into the dGPU and the VPUX tier, no
  device advertises \<^verbatim>\<open>FP32\<close>, the VPUX device advertises \<^verbatim>\<open>FP16\<close>, and \<open>SelectDevice\<close>
  does not return it: it throws.
\<close>

theorem SelectDevice_FP16_fallback_failing_input:
  "queries_succeed example_core [''GPU.4'', ''VPUX''] \<and>
   classify_devices example_core [''GPU.4'', ''VPUX''] no_tiers =
     Inr \<lparr>CPU = [], dGPU = [''GPU.4''], iGPU = [], MYRIAD = [], VPUX = [''VPUX'']\<rparr> \<and>
   \<not> supports example_core ''FP32'' ''GPU.4'' \<and> \<not> supports example_core ''FP32'' ''VPUX'' \<and>
   supports example_core ''FP16'' ''VPUX'' \<and>
   SelectDevice example_core [''GPU.4'', ''VPUX''] ''FP32'' =
     Inl (GeneralError ''Cannot select any device'')"
  by (simp add: queries_succeed_def name_query_fails_def supports_def SelectDevice_def
      no_tiers_def walk_tiers_def)

subsection \<open>C3: a query that throws\<close>

text \<open>
  Claim C3, as stated, fails: \<open>SelectDevice\<close> has no \<^verbatim>\<open>try\<close> block, so an exception of a
  per-device query leaves it. With an accelerator whose full-name query throws and a
  processor, the accelerator is not skipped in favour of the processor: the caller gets
  the exception.
\<close>

theorem SelectDevice_query_failure_counterexample:
  "name_query_fails example_core ''GPU.3'' \<and>
   SelectDevice example_core [''GPU.3'', ''CPU''] ''FP32'' =
     Inl (GeneralError ''Failed to query GPU.3'')"
  by (simp add: name_query_fails_def SelectDevice_def no_tiers_def)

text \<open>
  Claim C3, amended. \<open>SelectDevice\<close> does not catch the failure of a per-device query: on
  a device list of two or more devices, if the full-name query of a device with the
  generic accelerator prefix fails, \<open>SelectDevice\<close> fails with the error of the first such
  device; and if no full-name query fails and, in the first non-empty tier, a capability
  query fails before any earlier member has matched, \<open>SelectDevice\<close> fails with the error
  of that query.
\<close>

theorem SelectDevice_propagates_query_failure:
  assumes "2 \<le> length devs"
  shows "(\<forall>d. find (name_query_fails c) devs = Some d \<longrightarrow>
              SelectDevice c devs precision = Inl (projl (GetMetric_FULL_DEVICE_NAME c d))) \<and>
         (\<forall>d. find (name_query_fails c) devs = None \<and>
              find (answers c precision) (first_nonempty_tier (tiers_of c devs)) = Some d \<and>
              isl (GetMetric_OPTIMIZATION_CAPABILITIES c d) \<longrightarrow>
              SelectDevice c devs precision =
                Inl (projl (GetMetric_OPTIMIZATION_CAPABILITIES c d)))"
proof (intro conjI allI impI)
  have ne: "devs \<noteq> []" "length devs \<noteq> Suc 0" using assms(1) by auto
  {
    fix d
    assume "find (name_query_fails c) devs = Some d"
    then show "SelectDevice c devs precision = Inl (projl (GetMetric_FULL_DEVICE_NAME c d))"
      by (simp add: SelectDevice_def ne classify_devices_find)
  next
    fix d
    assume a: "find (name_query_fails c) devs = None \<and>
              find (answers c precision) (first_nonempty_tier (tiers_of c devs)) = Some d \<and>
              isl (GetMetric_OPTIMIZATION_CAPABILITIES c d)"
    then have cl: "classify_devices c devs no_tiers = Inr (tiers_of c devs)"
      by (simp add: classify_devices_find append_tiers_no_tiers)
    have "first_nonempty_tier (tiers_of c devs) \<noteq> []" using a by auto
    then have some:
      "(CPU (tiers_of c devs) = [] \<and> first_nonempty_tier (tiers_of c devs) = []) = False"
      by simp
    obtain e where e: "GetMetric_OPTIMIZATION_CAPABILITIES c d = Inl e"
      using a by (auto simp: isl_def)
    have "walk_tiers c precision (tiers_of c devs) = Inl e"
      using a e by (simp add: walk_tiers_find)
    then show "SelectDevice c devs precision =
                Inl (projl (GetMetric_OPTIMIZATION_CAPABILITIES c d))"
      by (simp add: SelectDevice_def ne cl no_tier_iff some e)
  }
qed

theorem SelectDevice_propagates_query_failure_witness:
  "SelectDevice example_core [''CPU'', ''GPU.3''] ''INT8'' =
     Inl (GeneralError ''Failed to query GPU.3'') \<and>
   SelectDevice example_core [''CPU'', ''GPU.5''] ''FP32'' =
     Inl (GeneralError ''Failed to query GPU.5'')"
proof -
  have len: "2 \<le> length [''CPU'', ''GPU.3'']" "2 \<le> length [''CPU'', ''GPU.5'']" by simp_all
  have n3: "find (name_query_fails example_core) [''CPU'', ''GPU.3''] = Some ''GPU.3''"
    by (simp add: name_query_fails_def example_core_def)
  have n5: "find (name_query_fails example_core) [''CPU'', ''GPU.5''] = None"
    by (simp add: name_query_fails_def example_core_def)
  have a5: "find (answers example_core ''FP32'')
              (first_nonempty_tier (tiers_of example_core [''CPU'', ''GPU.5''])) = Some ''GPU.5''"
    by (simp add: tier_defs answers_def)
  have "SelectDevice example_core [''CPU'', ''GPU.3''] ''INT8'' =
          Inl (projl (GetMetric_FULL_DEVICE_NAME example_core ''GPU.3''))"
    using SelectDevice_propagates_query_failure[OF len(1), of example_core "''INT8''"] n3
    by blast
  moreover have "SelectDevice example_core [''CPU'', ''GPU.5''] ''FP32'' =
          Inl (projl (GetMetric_OPTIMIZATION_CAPABILITIES example_core ''GPU.5''))"
    using SelectDevice_propagates_query_failure[OF len(2), of example_core "''FP32''"] n5 a5
    by simp
  ultimately show ?thesis by simp
qed

subsection \<open>C4: the operation-support query\<close>

text \<open>
  Claim C4. When the core is there, the network has a graph and the device list is
  enumerated (so it is not empty), \<open>QueryNetwork\<close> uses the answer of the first device
  whose operation-support query succeeds, whatever devices come after it in the list,
  and names the plugin itself as the owner of every operation of that answer; when the
  query fails on every device it returns the empty mapping and no error.
\<close>

theorem QueryNetwork_first_answer:
  assumes "plugin_core p = Some c" and "network \<noteq> None"
    and "GetDeviceList c (mergeConfigs (plugin_config p) config) = Inr devs"
  shows "(\<forall>pre d rest qr.
            devs = pre @ d # rest \<and> list_all (query_fails c network) pre \<and>
            core_QueryNetwork c network d = Inr qr \<longrightarrow>
            QueryNetwork p network config = Inr (attribute_layers (GetName p) (fst ` set qr))) \<and>
         (list_all (query_fails c network) devs \<longrightarrow>
            QueryNetwork p network config = Inr Map.empty)"
  using assms
  by (auto simp: QueryNetwork_def attribute_layers_def QueryNetwork_loop_all_fail
      QueryNetwork_loop_first_answer)

theorem QueryNetwork_first_answer_witness:
  "QueryNetwork example_plugin (Some []) [] = Inr (attribute_layers ''AUTO'' {''opA'', ''opB''}) \<and>
   QueryNetwork example_plugin (Some []) [(''AUTO_DEVICE_LIST'', ''CPU'')] = Inr Map.empty"
proof -
  have c: "plugin_core example_plugin = Some example_core"
    by (simp add: example_plugin_def)
  have n: "Some [] \<noteq> (None :: CNNNetwork)" by simp
  have name: "GetName example_plugin = ''AUTO''"
    by (simp add: GetName_def example_plugin_def AutoInferencePlugin_def)
  have l1: "GetDeviceList example_core (mergeConfigs (plugin_config example_plugin) []) =
              Inr [''CPU'', ''GPU.0'']"
    by (simp add: GetDeviceList_def example_plugin_def AutoInferencePlugin_def example_core_def)
  have l2: "GetDeviceList example_core
              (mergeConfigs (plugin_config example_plugin) [(''AUTO_DEVICE_LIST'', ''CPU'')]) =
              Inr [''CPU'']"
    by (simp add: GetDeviceList_def example_plugin_def AutoInferencePlugin_def example_core_def
        KEY_AUTO_DEVICE_LIST_def)
  have split: "[''CPU'', ''GPU.0''] = [''CPU''] @ ''GPU.0'' # []" by simp
  have f: "list_all (query_fails example_core (Some [])) [''CPU'']"
    by (simp add: query_fails_def example_core_def)
  have q: "core_QueryNetwork example_core (Some []) ''GPU.0'' =
             Inr [(''opA'', ''GPU.0''), (''opB'', ''GPU.0'')]"
    by (simp add: example_core_def)
  have "QueryNetwork example_plugin (Some []) [] =
          Inr (attribute_layers (GetName example_plugin)
                 (fst ` set [(''opA'', ''GPU.0''), (''opB'', ''GPU.0'')]))"
    using QueryNetwork_first_answer[OF c n l1] split f q by blast
  moreover have "QueryNetwork example_plugin (Some []) [(''AUTO_DEVICE_LIST'', ''CPU'')] =
          Inr Map.empty"
    using QueryNetwork_first_answer[OF c n l2] f by blast
  ultimately show ?thesis by (simp add: name)
qed

subsection \<open>C5: no device to select\<close>

text \<open>
  Claim C5, as stated, fails on a list of one device: \<open>SelectDevice\<close> returns the sole
  entry before it classifies anything, also when its identifier has no recognized
  prefix.
\<close>

theorem SelectDevice_NotFound_counterexample:
  "\<not> known_prefix ''FPGA'' \<and> SelectDevice example_core [''FPGA''] ''FP32'' = Inr ''FPGA''"
  by (simp add: known_prefix_def SelectDevice_def)

text \<open>
  Claim C5, amended. \<open>SelectDevice\<close> on an empty device list fails with \<^verbatim>\<open>NotFound\<close>; on
  a list of exactly one device it returns that device, whatever its identifier; on
  every device list of two or more devices whose identifiers all match none of the
  recognized prefixes it fails with \<^verbatim>\<open>NotFound\<close> and returns no device.
\<close>

theorem SelectDevice_NotFound:
  "SelectDevice c [] precision = Inl (NotFound ''No available device to select in AUTO plugin'') \<and>
   SelectDevice c [d] precision = Inr d \<and>
   (2 \<le> length devs \<and> list_all (\<lambda>d. \<not> known_prefix d) devs \<longrightarrow>
      SelectDevice c devs precision = Inl (NotFound ''No available device found''))"
proof (intro conjI impI)
  show "SelectDevice c [] precision = Inl (NotFound ''No available device to select in AUTO plugin'')"
    by (simp add: SelectDevice_def)
next
  show "SelectDevice c [d] precision = Inr d"
    by (simp add: SelectDevice_def)
next
  assume a: "2 \<le> length devs \<and> list_all (\<lambda>d. \<not> known_prefix d) devs"
  then have ne: "devs \<noteq> []" "length devs \<noteq> Suc 0" by auto
  have "classify_devices c devs no_tiers = Inr no_tiers"
    using a unknown_no_tiers[of devs c]
    by (simp add: classify_devices_find append_tiers_no_tiers)
  then show "SelectDevice c devs precision = Inl (NotFound ''No available device found'')"
    by (simp add: SelectDevice_def ne) (simp add: no_tiers_def)
qed

theorem SelectDevice_NotFound_witness:
  "SelectDevice example_core [] ''FP32'' =
     Inl (NotFound ''No available device to select in AUTO plugin'') \<and>
   SelectDevice example_core [''HDDL''] ''FP32'' = Inr ''HDDL'' \<and>
   SelectDevice example_core [''FPGA'', ''HDDL''] ''FP32'' =
     Inl (NotFound ''No available device found'')"
proof -
  have "2 \<le> length [''FPGA'', ''HDDL''] \<and> list_all (\<lambda>d. \<not> known_prefix d) [''FPGA'', ''HDDL'']"
    by (simp add: known_prefix_def)
  then show ?thesis
    using SelectDevice_NotFound[of example_core "''FP32''" "''HDDL''" "[''FPGA'', ''HDDL'']"]
    by blast
qed

subsection \<open>C6: the precision of a network\<close>

text \<open>
  Claim C6. \<open>GetNetworkPrecision\<close> returns \<^verbatim>\<open>INT8\<close> whenever the graph contains a
  \<^verbatim>\<open>FakeQuantize\<close> operator, whatever else it contains; otherwise it returns \<^verbatim>\<open>FP32\<close> or
  \<^verbatim>\<open>FP16\<close> after the type name (\<^verbatim>\<open>f32\<close> or \<^verbatim>\<open>f16\<close>) of the second input of the first
  convolution-family operator, in operator order, that has one of these two type names;
  and \<^verbatim>\<open>FP32\<close> when there is no such operator. The convolution family is
  \<open>convolution_family\<close>, which lists the six operator types on its own: the theorem
  fails for a loop that examines fewer or more of them.
\<close>

theorem GetNetworkPrecision_classify: "GetNetworkPrecision g = classify g"
  by (simp add: GetNetworkPrecision_def classify_def has_op_with_type_def
      GetNetworkPrecision_loop_find)

theorem GetNetworkPrecision_classify_witness:
  "GetNetworkPrecision
     [\<lparr>type_info = Convolution, input1_type_name = ''f32''\<rparr>,
      \<lparr>type_info = FakeQuantize, input1_type_name = ''f32''\<rparr>] = ''INT8'' \<and>
   GetNetworkPrecision
     [\<lparr>type_info = OtherOp, input1_type_name = ''f32''\<rparr>,
      \<lparr>type_info = ConvolutionIE, input1_type_name = ''i8''\<rparr>,
      \<lparr>type_info = GroupConvolution, input1_type_name = ''f16''\<rparr>,
      \<lparr>type_info = Convolution, input1_type_name = ''f32''\<rparr>] = ''FP16'' \<and>
   GetNetworkPrecision [\<lparr>type_info = OtherOp, input1_type_name = ''f16''\<rparr>] = ''FP32'' \<and>
   GetNetworkPrecision [\<lparr>type_info = Convolution, input1_type_name = ''f16''\<rparr>] = ''FP16'' \<and>
   GetNetworkPrecision
     [\<lparr>type_info = GroupConvolutionBackpropData, input1_type_name = ''f16''\<rparr>] = ''FP16'' \<and>
   GetNetworkPrecision
     [\<lparr>type_info = ConvolutionBackpropData, input1_type_name = ''f16''\<rparr>] = ''FP16'' \<and>
   GetNetworkPrecision [\<lparr>type_info = ConvolutionIE, input1_type_name = ''f16''\<rparr>] = ''FP16'' \<and>
   GetNetworkPrecision [\<lparr>type_info = DeconvolutionIE, input1_type_name = ''f16''\<rparr>] = ''FP16''"
  using GetNetworkPrecision_classify[of
      "[\<lparr>type_info = Convolution, input1_type_name = ''f32''\<rparr>,
        \<lparr>type_info = FakeQuantize, input1_type_name = ''f32''\<rparr>]"]
    GetNetworkPrecision_classify[of
      "[\<lparr>type_info = OtherOp, input1_type_name = ''f32''\<rparr>,
        \<lparr>type_info = ConvolutionIE, input1_type_name = ''i8''\<rparr>,
        \<lparr>type_info = GroupConvolution, input1_type_name = ''f16''\<rparr>,
        \<lparr>type_info = Convolution, input1_type_name = ''f32''\<rparr>]"]
    GetNetworkPrecision_classify[of "[\<lparr>type_info = OtherOp, input1_type_name = ''f16''\<rparr>]"]
    GetNetworkPrecision_classify[of "[\<lparr>type_info = Convolution, input1_type_name = ''f16''\<rparr>]"]
    GetNetworkPrecision_classify[of
      "[\<lparr>type_info = GroupConvolutionBackpropData, input1_type_name = ''f16''\<rparr>]"]
    GetNetworkPrecision_classify[of
      "[\<lparr>type_info = ConvolutionBackpropData, input1_type_name = ''f16''\<rparr>]"]
    GetNetworkPrecision_classify[of "[\<lparr>type_info = ConvolutionIE, input1_type_name = ''f16''\<rparr>]"]
    GetNetworkPrecision_classify[of "[\<lparr>type_info = DeconvolutionIE, input1_type_name = ''f16''\<rparr>]"]
  by (simp add: classify_def recognized_weights_def)

subsection \<open>C7: validation of a configuration\<close>

text \<open>
  Claim C7. \<open>CheckConfig\<close> judges every entry on its own: it accepts an entry whose key
  has the prefix \<^verbatim>\<open>AUTO_\<close> with any value, accepts the key \<^verbatim>\<open>PERF_COUNT\<close> exactly when
  its value is \<^verbatim>\<open>YES\<close> or \<^verbatim>\<open>NO\<close>, rejects \<^verbatim>\<open>PERF_COUNT\<close> with any other value with the
  unsupported-value error and rejects every other key with the unsupported-key error;
  the map is accepted when all its entries are, and rejected with the error of its first
  rejected entry otherwise. The plugin is left as it was.
\<close>

theorem CheckConfig_validate: "CheckConfig p config = (validate config, p)"
  by (simp add: CheckConfig_def CheckConfig_loop_validate)

theorem CheckConfig_validate_witness:
  "CheckConfig example_plugin [(''AUTO_FOO'', ''bar''), (''PERF_COUNT'', ''YES'')] =
     (Inr (), example_plugin) \<and>
   CheckConfig example_plugin [(''PERF_COUNT'', ''MAYBE'')] =
     (Inl (GeneralError ''Unsupported config value: MAYBE for key: PERF_COUNT''), example_plugin) \<and>
   CheckConfig example_plugin [(''RANDOM_KEY'', ''x'')] =
     (Inl (GeneralError ''Unsupported config key: RANDOM_KEY''), example_plugin)"
  using CheckConfig_validate[of example_plugin "[(''AUTO_FOO'', ''bar''), (''PERF_COUNT'', ''YES'')]"]
    CheckConfig_validate[of example_plugin "[(''PERF_COUNT'', ''MAYBE'')]"]
    CheckConfig_validate[of example_plugin "[(''RANDOM_KEY'', ''x'')]"]
  by (simp add: validate_def accepted_entry_def entry_error_def)

subsection \<open>C8: merging configurations\<close>

text \<open>
  Claim C8. For configuration maps \<open>a\<close> and \<open>b\<close> (key-ordered, every key once),
  \<open>mergeConfigs a b\<close> is again such a map and holds exactly the entries of \<open>a\<close>
  overridden by those of \<open>b\<close>: every key of \<open>b\<close> has the value \<open>b\<close> gives it, every other
  key the value \<open>a\<close> gives it, and no other key is there. Merging with the empty map
  gives \<open>a\<close>.
\<close>

theorem mergeConfigs_right_biased:
  assumes "wf_config a" and "wf_config b"
  shows "wf_config (mergeConfigs a b) \<and>
         map_of (mergeConfigs a b) = map_of a ++ map_of b \<and>
         mergeConfigs a [] = a"
  using assms by (simp add: wf_mergeConfigs map_of_mergeConfigs wf_distinct)

theorem mergeConfigs_right_biased_witness:
  "wf_config [(''a'', ''0''), (''k'', ''1'')] \<and> wf_config [(''b'', ''3''), (''k'', ''2'')] \<and>
   mergeConfigs [(''a'', ''0''), (''k'', ''1'')] [(''b'', ''3''), (''k'', ''2'')] =
     [(''a'', ''0''), (''b'', ''3''), (''k'', ''2'')] \<and>
   map_of [(''a'', ''0''), (''b'', ''3''), (''k'', ''2'')] =
     map_of [(''a'', ''0''), (''k'', ''1'')] ++ map_of [(''b'', ''3''), (''k'', ''2'')]"
proof -
  have a: "wf_config [(''a'', ''0''), (''k'', ''1'')]" by (simp add: wf_config_def)
  have b: "wf_config [(''b'', ''3''), (''k'', ''2'')]" by (simp add: wf_config_def)
  have m: "mergeConfigs [(''a'', ''0''), (''k'', ''1'')] [(''b'', ''3''), (''k'', ''2'')] =
             [(''a'', ''0''), (''b'', ''3''), (''k'', ''2'')]"
    by simp
  have "map_of (mergeConfigs [(''a'', ''0''), (''k'', ''1'')] [(''b'', ''3''), (''k'', ''2'')]) =
          map_of [(''a'', ''0''), (''k'', ''1'')] ++ map_of [(''b'', ''3''), (''k'', ''2'')]"
    using mergeConfigs_right_biased[OF a b] by blast
  then have "map_of [(''a'', ''0''), (''b'', ''3''), (''k'', ''2'')] =
          map_of [(''a'', ''0''), (''k'', ''1'')] ++ map_of [(''b'', ''3''), (''k'', ''2'')]"
    by (simp only: m)
  then show ?thesis using a b m by blast
qed

subsection \<open>C9: the five buckets\<close>

text \<open>
  Claim C9, as stated, fails: a device with the generic accelerator prefix whose full
  name has neither the \<^verbatim>\<open>iGPU\<close> nor the \<^verbatim>\<open>dGPU\<close> marker matches a known prefix and is in
  no bucket.
\<close>

theorem classify_devices_partition_counterexample:
  "known_prefix ''GPU.2'' \<and>
   classify_devices example_core [''GPU.2'', ''CPU''] no_tiers =
     Inr \<lparr>CPU = [''CPU''], dGPU = [], iGPU = [], MYRIAD = [], VPUX = []\<rparr> \<and>
   bucket_count \<lparr>CPU = [''CPU''], dGPU = [], iGPU = [], MYRIAD = [], VPUX = []\<rparr> ''GPU.2'' = 0"
  by (simp add: known_prefix_def no_tiers_def bucket_count_def)

text \<open>
  Claim C9, amended. When the full-name sub-queries of the list succeed, the
  classification yields the five tiers of the list, and every device of the list is in
  exactly one bucket, except the devices that match no known prefix and the devices with
  the generic accelerator prefix whose full name carries neither marker: these are in no
  bucket. Nothing else is in a bucket.
\<close>

theorem classify_devices_partition:
  assumes "find (name_query_fails c) devs = None"
  shows "classify_devices c devs no_tiers = Inr (tiers_of c devs) \<and>
         (\<forall>d\<in>set devs. bucket_count (tiers_of c devs) d =
                           (if \<not> known_prefix d \<or> unmarked_GPU c d then 0 else 1)) \<and>
         (\<forall>d. d \<notin> set devs \<longrightarrow> bucket_count (tiers_of c devs) d = 0)"
proof (intro conjI ballI allI impI)
  show "classify_devices c devs no_tiers = Inr (tiers_of c devs)"
    using assms by (simp add: classify_devices_find append_tiers_no_tiers)
next
  fix d assume "d \<notin> set devs"
  then show "bucket_count (tiers_of c devs) d = 0" by (rule bucket_count_outside)
next
  fix d assume d: "d \<in> set devs"
  then have ok: "\<not> name_query_fails c d" using assms by (auto simp: find_None_iff)
  consider (cpu) "prefix ''CPU'' d" | (myriad) "prefix ''MYRIAD'' d"
    | (vpux) "prefix ''VPUX'' d" | (gpu) "prefix ''GPU'' d" | (other) "\<not> known_prefix d"
    unfolding known_prefix_def by blast
  then show "bucket_count (tiers_of c devs) d =
               (if \<not> known_prefix d \<or> unmarked_GPU c d then 0 else 1)"
  proof cases
    case cpu
    then show ?thesis using prefixes_exclusive(1)[OF cpu]
      by (simp add: bucket_count_tiers_of[OF d] known_prefix_def unmarked_GPU_def is_CPU_def
          is_MYRIAD_def is_VPUX_def is_iGPU_def is_dGPU_def)
  next
    case myriad
    then have "\<not> prefix ''CPU'' d" using prefixes_exclusive(1) by blast
    then show ?thesis using prefixes_exclusive(2)[OF myriad] myriad
      by (simp add: bucket_count_tiers_of[OF d] known_prefix_def unmarked_GPU_def is_CPU_def
          is_MYRIAD_def is_VPUX_def is_iGPU_def is_dGPU_def)
  next
    case vpux
    then have "\<not> prefix ''CPU'' d" "\<not> prefix ''MYRIAD'' d"
      using prefixes_exclusive by blast+
    then show ?thesis using prefixes_exclusive(3)[OF vpux] vpux
      by (simp add: bucket_count_tiers_of[OF d] known_prefix_def unmarked_GPU_def is_CPU_def
          is_MYRIAD_def is_VPUX_def is_iGPU_def is_dGPU_def)
  next
    case gpu
    then have no: "\<not> prefix ''CPU'' d" "\<not> prefix ''MYRIAD'' d" "\<not> prefix ''VPUX'' d"
      using prefixes_exclusive by blast+
    obtain fullName where "GetMetric_FULL_DEVICE_NAME c d = Inr fullName"
      using ok gpu by (cases "GetMetric_FULL_DEVICE_NAME c d") (auto simp: name_query_fails_def)
    then show ?thesis using no gpu
      by (simp add: bucket_count_tiers_of[OF d] known_prefix_def unmarked_GPU_def is_CPU_def
          is_MYRIAD_def is_VPUX_def is_iGPU_def is_dGPU_def)
  next
    case other
    then show ?thesis
      by (simp add: bucket_count_tiers_of[OF d] known_prefix_def unmarked_GPU_def is_CPU_def
          is_MYRIAD_def is_VPUX_def is_iGPU_def is_dGPU_def)
  qed
qed

theorem classify_devices_partition_witness:
  "classify_devices example_core [''CPU'', ''GPU.0'', ''GPU.1'', ''GPU.2'', ''FPGA''] no_tiers =
     Inr \<lparr>CPU = [''CPU''], dGPU = [''GPU.0''], iGPU = [''GPU.1''], MYRIAD = [], VPUX = []\<rparr> \<and>
   bucket_count (tiers_of example_core [''CPU'', ''GPU.0'', ''GPU.1'', ''GPU.2'', ''FPGA''])
     ''GPU.0'' = 1 \<and>
   bucket_count (tiers_of example_core [''CPU'', ''GPU.0'', ''GPU.1'', ''GPU.2'', ''FPGA''])
     ''GPU.2'' = 0"
proof -
  let ?devs = "[''CPU'', ''GPU.0'', ''GPU.1'', ''GPU.2'', ''FPGA'']"
  have n: "find (name_query_fails example_core) ?devs = None"
    by (simp add: name_query_fails_def example_core_def)
  have t: "tiers_of example_core ?devs =
             \<lparr>CPU = [''CPU''], dGPU = [''GPU.0''], iGPU = [''GPU.1''], MYRIAD = [], VPUX = []\<rparr>"
    by (simp add: tier_defs example_core_def)
  have k: "known_prefix ''GPU.0''" "\<not> unmarked_GPU example_core ''GPU.0''"
    "unmarked_GPU example_core ''GPU.2''"
    by (simp_all add: known_prefix_def unmarked_GPU_def sublist_code(3))
  have m: "''GPU.0'' \<in> set ?devs" "''GPU.2'' \<in> set ?devs" by simp_all
  note p = classify_devices_partition[OF n]
  have "classify_devices example_core ?devs no_tiers = Inr (tiers_of example_core ?devs)"
    using p by blast
  moreover have "bucket_count (tiers_of example_core ?devs) ''GPU.0'' = 1"
    using p m(1) k by (metis (full_types))
  moreover have "bucket_count (tiers_of example_core ?devs) ''GPU.2'' = 0"
    using p m(2) k by (metis (full_types))
  ultimately show ?thesis by (simp only: t)
qed

subsection \<open>C10: the performance-counters flag\<close>

text \<open>
  Claim C10. In every handle that \<open>LoadNetworkImpl\<close> returns, the performance-counters
  flag is true if and only if the key \<^verbatim>\<open>PERF_COUNT\<close> is present in the merged
  configuration, whatever its value: with \<^verbatim>\<open>PERF_COUNT\<close> set to \<^verbatim>\<open>NO\<close>, which
  \<open>CheckConfig\<close> accepts, the flag is true as well.
\<close>

theorem LoadNetworkImpl_enablePerfCount:
  assumes "LoadNetworkImpl p modelPath network config precision = Inr h"
  shows "enablePerfCount h =
           (KEY_PERF_COUNT \<in> fst ` set (mergeConfigs (plugin_config p) config)) \<and>
         ((KEY_PERF_COUNT, NO) \<in> set (mergeConfigs (plugin_config p) config) \<longrightarrow>
            enablePerfCount h)"
proof -
  have "enablePerfCount h =
           (KEY_PERF_COUNT \<in> fst ` set (mergeConfigs (plugin_config p) config))"
    using LoadNetworkImpl_flag[OF assms] by (simp add: map_of_eq_None_iff)
  then show ?thesis by force
qed

theorem LoadNetworkImpl_enablePerfCount_witness:
  "LoadNetworkImpl example_plugin ''model.xml'' None [(''PERF_COUNT'', ''NO'')] ''FP32'' =
     Inr \<lparr>cpuFuture = Some ''CPU'', acceleratorFuture = Some ''GPU.0'', enablePerfCount = True\<rparr> \<and>
   fst (CheckConfig example_plugin [(''PERF_COUNT'', ''NO'')]) = Inr () \<and>
   enablePerfCount
     \<lparr>cpuFuture = Some ''CPU'', acceleratorFuture = Some ''GPU.0'', enablePerfCount = True\<rparr>"
proof -
  let ?h = "\<lparr>cpuFuture = Some ''CPU'', acceleratorFuture = Some ''GPU.0'', enablePerfCount = True\<rparr>"
  have sel: "SelectDevice example_core [''CPU'', ''GPU.0''] ''FP32'' = Inr ''GPU.0''"
    by (simp add: SelectDevice_def no_tiers_def walk_tiers_def)
  have chk: "fst (CheckConfig example_plugin [(''PERF_COUNT'', ''NO'')]) = Inr ()"
    by (simp add: CheckConfig_def KEY_PERF_COUNT_def NO_def)
  have devs: "GetDeviceList example_core [(''PERF_COUNT'', ''NO'')] = Inr [''CPU'', ''GPU.0'']"
    by (simp add: GetDeviceList_def KEY_AUTO_DEVICE_LIST_def example_core_def)
  have cfg: "mergeConfigs (plugin_config example_plugin) [(''PERF_COUNT'', ''NO'')] =
               [(''PERF_COUNT'', ''NO'')]"
    by (simp add: example_plugin_def AutoInferencePlugin_def)
  have core: "plugin_core example_plugin = Some example_core"
    by (simp add: example_plugin_def)
  have run: "LoadNetworkImpl example_plugin ''model.xml'' None [(''PERF_COUNT'', ''NO'')] ''FP32'' =
               Inr ?h"
    unfolding LoadNetworkImpl_def core cfg
    by (simp add: chk devs sel KEY_PERF_COUNT_def)
  have "(KEY_PERF_COUNT, NO) \<in>
          set (mergeConfigs (plugin_config example_plugin) [(''PERF_COUNT'', ''NO'')])"
    unfolding cfg by (simp add: KEY_PERF_COUNT_def NO_def)
  then have "enablePerfCount ?h"
    using LoadNetworkImpl_enablePerfCount[OF run] by blast
  then show ?thesis using run chk by simp
qed

end
